theory Spec2Isabelle
  imports Main "HOL-Library.Word"
begin

section \<open>JavaScript values and book records\<close>

text \<open>
  The values a field of a parsed JSON document can hold. \<open>JObj\<close> stands for an array or
  an object, named by its reference. Numbers are integers here; \<open>JSON.parse\<close> never
  yields NaN, so strict equality \<open>===\<close> on these values is HOL equality.
\<close>

datatype jsval = JUndefined | JNull | JBool bool | JNum int | JStr string | JObj nat

fun truthy :: "jsval \<Rightarrow> bool" where
  "truthy JUndefined = False"
| "truthy JNull = False"
| "truthy (JBool b) = b"
| "truthy (JNum n) = (n \<noteq> 0)"
| "truthy (JStr s) = (s \<noteq> [])"
| "truthy (JObj r) = True"

text \<open>\<^verbatim>\<open>a || b\<close>\<close>

definition js_or :: "jsval \<Rightarrow> jsval \<Rightarrow> jsval" where
  "js_or a b = (if truthy a then a else b)"

text \<open>
  An element of \<open>data.docs\<close>. A property that is absent reads as \<open>JUndefined\<close>
  (\<open>None\<close> for the display fields); \<open>addedDate\<close> is the property that
  \<open>addToReadingList\<close> adds.
\<close>

record book =
  key :: jsval
  title :: jsval
  author_name :: "string list option"
  first_publish_year :: "int option"
  cover_i :: "int option"
  addedDate :: "string option"

text \<open>\<^verbatim>\<open>const bookId = book.key || book.title;\<close>\<close>

definition bookId :: "book \<Rightarrow> jsval" where
  "bookId b = js_or (key b) (title b)"

text \<open>\<^verbatim>\<open>list.some(b => (b.key || b.title) === bookId)\<close>, as written in
  \<open>toggleBookmark\<close>, \<open>addToReadingList\<close> and \<open>BookCard\<close>.\<close>

definition contains :: "book list \<Rightarrow> jsval \<Rightarrow> bool" where
  "contains store i = list_ex (\<lambda>b. js_or (key b) (title b) = i) store"

text \<open>\<open>BookCard\<close>: the two membership flags of a card.\<close>

definition isBookmarked :: "book list \<Rightarrow> book \<Rightarrow> bool" where
  "isBookmarked bookmarks b = contains bookmarks (bookId b)"

definition isInReadingList :: "book list \<Rightarrow> book \<Rightarrow> bool" where
  "isInReadingList readingList b = contains readingList (bookId b)"

section \<open>Strings\<close>

text \<open>
  The text of a query is a JavaScript string: a sequence of UTF-16 code units.
  \<open>utf16\<close> gives the code units of a literal of the Latin-1 range. The strings that
  the code only compares, tests for emptiness or passes on stay of type \<open>string\<close>.
\<close>

type_synonym jsstring = "16 word list"

definition utf16 :: "string \<Rightarrow> jsstring" where
  "utf16 s = map of_char s"

text \<open>
  The code units that \<open>String.prototype.trim\<close> strips, \<open>WhiteSpace\<close> and
  \<open>LineTerminator\<close> of ECMAScript: tab, line feed, vertical tab, form feed, carriage
  return, the space separators of Unicode (U+0020, U+00A0, U+1680, U+2000 to U+200A,
  U+202F, U+205F, U+3000), the line and paragraph separators and U+FEFF.
\<close>

definition is_space :: "16 word \<Rightarrow> bool" where
  "is_space c = (c = 0x0009 \<or> c = 0x000A \<or> c = 0x000B \<or> c = 0x000C \<or> c = 0x000D
     \<or> c = 0x0020 \<or> c = 0x00A0 \<or> c = 0x1680 \<or> (0x2000 \<le> c \<and> c \<le> 0x200A)
     \<or> c = 0x2028 \<or> c = 0x2029 \<or> c = 0x202F \<or> c = 0x205F \<or> c = 0x3000
     \<or> c = 0xFEFF)"

text \<open>\<open>String.prototype.trim\<close>\<close>

definition trim :: "jsstring \<Rightarrow> jsstring" where
  "trim s = rev (dropWhile is_space (rev (dropWhile is_space s)))"

definition digit_char :: "nat \<Rightarrow> char" where
  "digit_char n = ''0123456789'' ! (n mod 10)"

function show_nat :: "nat \<Rightarrow> string" where
  "show_nat n = (if n < 10 then [digit_char n] else show_nat (n div 10) @ [digit_char n])"
  by pat_completeness auto
termination
  by (relation "measure id") auto

section \<open>Component state\<close>

record filter_set =
  yearFrom :: string
  yearTo :: string
  language :: string
  subject :: string

text \<open>
  A request as \<open>fetchBooks\<close> builds it: the parts of \<open>apiUrl\<close>, and the \<open>page\<close> and
  \<open>append\<close> arguments its continuation still holds when the response arrives.
\<close>

record request =
  req_param :: string
  req_query :: jsstring
  req_page :: nat
  req_limit :: nat
  req_yearFrom :: "string option"
  req_yearTo :: "string option"
  req_language :: "string option"
  req_append :: bool

text \<open>
  The \<open>useState\<close> cells of \<open>App\<close> that the handlers below read or write, and
  \<open>inflight\<close>: the calls of \<open>fetchBooks\<close> suspended at \<open>await fetch(apiUrl)\<close>, oldest
  first.
\<close>

record app =
  searchQuery :: jsstring
  searchType :: string
  books :: "book list"
  loading :: bool
  error :: "string option"
  currentPage :: nat
  hasMoreResults :: bool
  bookmarks :: "book list"
  readingList :: "book list"
  filters :: filter_set
  inflight :: "request list"

definition initial :: app where
  "initial = \<lparr> searchQuery = [], searchType = ''title'', books = [], loading = False,
     error = None, currentPage = 1, hasMoreResults = False, bookmarks = [],
     readingList = [],
     filters = \<lparr> yearFrom = [], yearTo = [], language = [], subject = [] \<rparr>,
     inflight = [] \<rparr>"

text \<open>What the view shows: the spinner while \<open>loading\<close>, else the error banner when
  \<open>error\<close> is set.\<close>

datatype status = Idle | Loading | Error

definition status_of :: "app \<Rightarrow> status" where
  "status_of st = (if loading st then Loading else if error st \<noteq> None then Error else Idle)"

section \<open>Fetching\<close>

text \<open>What \<open>await response.json()\<close> gives: a rejection with its message, or a document
  whose \<open>docs\<close> is absent (\<open>None\<close>) or an array.\<close>

datatype body = Malformed string | Parsed "book list option"

text \<open>What \<open>await fetch(apiUrl)\<close> gives: a rejection with its message, or a response
  with its status code and body.\<close>

datatype response = Rejected string | Http nat body

text \<open>\<open>response.ok\<close>\<close>

definition ok :: "nat \<Rightarrow> bool" where
  "ok code = (200 \<le> code \<and> code \<le> 299)"

definition nonempty_opt :: "string \<Rightarrow> string option" where
  "nonempty_opt s = (if s \<noteq> [] then Some s else None)"

definition build_request :: "filter_set \<Rightarrow> jsstring \<Rightarrow> string \<Rightarrow> nat \<Rightarrow> bool \<Rightarrow> request" where
  "build_request f query type page append' =
     \<lparr> req_param = (if type = ''author'' then ''author''
                    else if type = ''subject'' then ''subject'' else ''title''),
       req_query = query, req_page = page, req_limit = 12,
       req_yearFrom = nonempty_opt (yearFrom f),
       req_yearTo = nonempty_opt (yearTo f),
       req_language = nonempty_opt (language f),
       req_append = append' \<rparr>"

text \<open>\<open>fetchBooks\<close> up to \<open>await fetch(apiUrl)\<close>.\<close>

definition fetchBooks :: "app \<Rightarrow> jsstring \<Rightarrow> string \<Rightarrow> nat \<Rightarrow> bool \<Rightarrow> app" where
  "fetchBooks st query type page append' =
     (if trim query = [] then st
      else st\<lparr> loading := True, error := None,
               inflight := inflight st @ [build_request (filters st) query type page append'] \<rparr>)"

text \<open>The \<open>catch\<close> block.\<close>

definition fetch_failed :: "app \<Rightarrow> request \<Rightarrow> string \<Rightarrow> app" where
  "fetch_failed st r message =
     st\<lparr> error := Some (''Failed to fetch books: '' @ message),
         books := (if \<not> req_append r then [] else books st) \<rparr>"

text \<open>The body of the \<open>try\<close> block after \<open>await response.json()\<close>.\<close>

definition fetch_parsed :: "app \<Rightarrow> request \<Rightarrow> book list option \<Rightarrow> app" where
  "fetch_parsed st r docs =
     (case docs of
        Some newBooks \<Rightarrow>
          (if length newBooks > 0
           then st\<lparr> books := (if req_append r then books st @ newBooks else newBooks),
                    hasMoreResults := (length newBooks = 12),
                    currentPage := req_page r \<rparr>
           else st\<lparr> books := (if \<not> req_append r then [] else books st),
                    hasMoreResults := False \<rparr>)
      | None \<Rightarrow>
          st\<lparr> books := (if \<not> req_append r then [] else books st),
              hasMoreResults := False \<rparr>)"

text \<open>
  The \<open>try\<close> block from the arrival of the response to the value of \<open>data.docs\<close>:
  \<open>Inl\<close> carries the message of what was thrown (the rejection of \<open>fetch\<close>, the
  \<open>Error\<close> thrown when \<open>response.ok\<close> is false, the rejection of \<open>response.json()\<close>).
\<close>

definition await_docs :: "response \<Rightarrow> string + book list option" where
  "await_docs resp =
     (case resp of
        Rejected message \<Rightarrow> Inl message
      | Http code b \<Rightarrow>
          (if \<not> ok code then Inl (''HTTP error! status: '' @ show_nat code)
           else case b of
                  Malformed message \<Rightarrow> Inl message
                | Parsed docs \<Rightarrow> Inr docs))"

text \<open>\<open>fetchBooks\<close> from the arrival of the response to the end of \<open>finally\<close>.\<close>

definition fetchBooks_resume :: "app \<Rightarrow> request \<Rightarrow> response \<Rightarrow> app" where
  "fetchBooks_resume st r resp =
     (case await_docs resp of
        Inl message \<Rightarrow> fetch_failed st r message
      | Inr docs \<Rightarrow> fetch_parsed st r docs)
     \<lparr> loading := False \<rparr>"

text \<open>The batch a parsed document returns: \<open>data.docs\<close>, or nothing when it is absent.\<close>

definition batch :: "book list option \<Rightarrow> book list" where
  "batch docs = (case docs of None \<Rightarrow> [] | Some newBooks \<Rightarrow> newBooks)"

text \<open>The response to the \<open>i\<close>-th suspended call arrives.\<close>

definition settle :: "app \<Rightarrow> nat \<Rightarrow> response \<Rightarrow> app" where
  "settle st i resp =
     (if i < length (inflight st)
      then fetchBooks_resume (st\<lparr> inflight := take i (inflight st) @ drop (Suc i) (inflight st) \<rparr>)
             (inflight st ! i) resp
      else st)"

section \<open>Handlers\<close>

definition setSearchQuery :: "app \<Rightarrow> jsstring \<Rightarrow> app" where
  "setSearchQuery st v = st\<lparr> searchQuery := v \<rparr>"

definition handleSearch :: "app \<Rightarrow> app" where
  "handleSearch st =
     (if trim (searchQuery st) \<noteq> []
      then fetchBooks (st\<lparr> currentPage := 1 \<rparr>) (searchQuery st) (searchType st) 1 False
      else st)"

definition handleLoadMore :: "app \<Rightarrow> app" where
  "handleLoadMore st =
     (if hasMoreResults st \<and> \<not> loading st
      then fetchBooks st (searchQuery st) (searchType st) (currentPage st + 1) True
      else st)"

definition handleSearchTypeChange :: "app \<Rightarrow> string \<Rightarrow> app" where
  "handleSearchTypeChange st v =
     st\<lparr> searchType := v, books := [], currentPage := 1, hasMoreResults := False \<rparr>"

definition toggleBookmark :: "app \<Rightarrow> book \<Rightarrow> app" where
  "toggleBookmark st b =
     st\<lparr> bookmarks :=
          (if contains (bookmarks st) (bookId b)
           then filter (\<lambda>x. js_or (key x) (title x) \<noteq> bookId b) (bookmarks st)
           else bookmarks st @ [b]) \<rparr>"

text \<open>\<open>now\<close> is \<open>new Date().toISOString()\<close>.\<close>

definition addToReadingList :: "app \<Rightarrow> book \<Rightarrow> string \<Rightarrow> app" where
  "addToReadingList st b now =
     st\<lparr> readingList :=
          (if \<not> contains (readingList st) (bookId b)
           then readingList st @ [b\<lparr> addedDate := Some now \<rparr>]
           else readingList st) \<rparr>"

definition removeFromReadingList :: "app \<Rightarrow> jsval \<Rightarrow> app" where
  "removeFromReadingList st i =
     st\<lparr> readingList := filter (\<lambda>x. js_or (key x) (title x) \<noteq> i) (readingList st) \<rparr>"

definition handleFilterChange :: "app \<Rightarrow> string \<Rightarrow> string \<Rightarrow> app" where
  "handleFilterChange st filterName v =
     st\<lparr> filters :=
          (if filterName = ''yearFrom'' then (filters st)\<lparr> yearFrom := v \<rparr>
           else if filterName = ''yearTo'' then (filters st)\<lparr> yearTo := v \<rparr>
           else if filterName = ''language'' then (filters st)\<lparr> language := v \<rparr>
           else if filterName = ''subject'' then (filters st)\<lparr> subject := v \<rparr>
           else filters st) \<rparr>"

definition clearFilters :: "app \<Rightarrow> app" where
  "clearFilters st =
     st\<lparr> filters := \<lparr> yearFrom = [], yearTo = [], language = [], subject = [] \<rparr> \<rparr>"

text \<open>Type and query of each entry of \<open>quickSearchSuggestions\<close>.\<close>

definition quickSearchSuggestions :: "(string \<times> jsstring) list" where
  "quickSearchSuggestions =
     [(''subject'', utf16 ''computer science''), (''subject'', utf16 ''mathematics''),
      (''subject'', utf16 ''psychology''), (''subject'', utf16 ''literature''),
      (''subject'', utf16 ''history''), (''author'', utf16 ''Stephen King''),
      (''title'', utf16 ''1984''), (''title'', utf16 ''Harry Potter'')]"

definition handleQuickSearch :: "app \<Rightarrow> string \<times> jsstring \<Rightarrow> app" where
  "handleQuickSearch st suggestion =
     fetchBooks (st\<lparr> searchType := fst suggestion, searchQuery := snd suggestion,
                     currentPage := 1 \<rparr>)
       (snd suggestion) (fst suggestion) 1 False"

section \<open>Runs of the component\<close>

text \<open>What can happen to the mounted component: a user action, or the arrival of the
  response to a suspended call.\<close>

datatype event =
    Type_query jsstring
  | Submit
  | Load_more
  | Change_type string
  | Quick_search nat
  | Toggle_bookmark book
  | Add_to_list book string
  | Remove_from_list jsval
  | Change_filter string string
  | Clear_filters
  | Arrive nat response

fun step :: "app \<Rightarrow> event \<Rightarrow> app" where
  "step st (Type_query v) = setSearchQuery st v"
| "step st Submit = handleSearch st"
| "step st Load_more = handleLoadMore st"
| "step st (Change_type v) = handleSearchTypeChange st v"
| "step st (Quick_search n) =
     (if n < length quickSearchSuggestions
      then handleQuickSearch st (quickSearchSuggestions ! n) else st)"
| "step st (Toggle_bookmark b) = toggleBookmark st b"
| "step st (Add_to_list b now) = addToReadingList st b now"
| "step st (Remove_from_list i) = removeFromReadingList st i"
| "step st (Change_filter n v) = handleFilterChange st n v"
| "step st Clear_filters = clearFilters st"
| "step st (Arrive i resp) = settle st i resp"

definition run :: "app \<Rightarrow> event list \<Rightarrow> app" where
  "run st evs = foldl step st evs"

text \<open>A \<open>search()\<close> whose response is the next thing to arrive, and the same for
  \<open>loadMore()\<close>. The call just issued is the last of \<open>inflight\<close>.\<close>

definition search_then :: "app \<Rightarrow> response \<Rightarrow> app" where
  "search_then st resp = settle (handleSearch st) (length (inflight st)) resp"

definition loadMore_then :: "app \<Rightarrow> response \<Rightarrow> app" where
  "loadMore_then st resp = settle (handleLoadMore st) (length (inflight st)) resp"

text \<open>\<open>loadMore()\<close> called once per response of the list, each call fetching and getting
  its response before the next; \<open>None\<close> when one of the calls fetches nothing.\<close>

fun loadMore_calls :: "app \<Rightarrow> response list \<Rightarrow> app option" where
  "loadMore_calls st [] = Some st"
| "loadMore_calls st (resp # rs) =
     (if length (inflight (handleLoadMore st)) = Suc (length (inflight st))
      then loadMore_calls (loadMore_then st resp) rs
      else None)"

text \<open>The response that returns the batch \<open>d\<close> with status \<open>code\<close>.\<close>

definition page_of :: "nat \<Rightarrow> book list \<Rightarrow> response" where
  "page_of code d = Http code (Parsed (Some d))"

text \<open>No two entries of one identity in either store.\<close>

definition stores_distinct :: "app \<Rightarrow> bool" where
  "stores_distinct st =
     (distinct (map bookId (bookmarks st)) \<and> distinct (map bookId (readingList st)))"

section \<open>Example data\<close>

definition mk_book :: "string \<Rightarrow> string \<Rightarrow> book" where
  "mk_book k t = \<lparr> key = JStr k, title = JStr t, author_name = None,
     first_publish_year = None, cover_i = None, addedDate = None \<rparr>"

definition dune :: book where
  "dune = mk_book ''/works/OL1W'' ''Dune''"

definition shelf :: "nat \<Rightarrow> book list" where
  "shelf n = map (\<lambda>i. mk_book (''/works/OL'' @ show_nat i @ ''W'') (''Volume '' @ show_nat i))
     [0..<n]"

definition full_page :: response where
  "full_page = Http 200 (Parsed (Some (shelf 12)))"

text \<open>Every code unit that \<open>trim\<close> strips, once.\<close>

definition white_space :: jsstring where
  "white_space = [0x0009, 0x000A, 0x000B, 0x000C, 0x000D, 0x0020, 0x00A0, 0x1680,
     0x2000, 0x2001, 0x2002, 0x2003, 0x2004, 0x2005, 0x2006, 0x2007, 0x2008, 0x2009, 0x200A,
     0x2028, 0x2029, 0x202F, 0x205F, 0x3000, 0xFEFF]"

definition typed_dune :: app where
  "typed_dune = setSearchQuery initial (utf16 ''dune'')"

definition untitled :: "string list option \<Rightarrow> book" where
  "untitled a = \<lparr> key = JUndefined, title = JUndefined, author_name = a,
     first_publish_year = None, cover_i = None, addedDate = None \<rparr>"

definition emma :: book where
  "emma = mk_book ''/works/OL2W'' ''Emma''"

definition stale_run :: "event list" where
  "stale_run = [Type_query (utf16 ''dune''), Submit, Arrive 0 full_page, Load_more,
     Type_query (utf16 ''emma''), Submit, Arrive 1 (Http 200 (Parsed (Some [emma])))]"

definition dune_page_2 :: response where
  "dune_page_2 = Http 200 (Parsed (Some [dune]))"

section \<open>Collection stores\<close>

lemma contains_filter:
  "contains (filter (\<lambda>x. js_or (key x) (title x) \<noteq> j) s) i = (contains s i \<and> i \<noteq> j)"
  by (induction s) (auto simp: contains_def)

lemma contains_append: "contains (s @ t) i = (contains s i \<or> contains t i)"
  by (simp add: contains_def list_ex_iff) blast

lemma contains_single: "contains [b] i = (js_or (key b) (title b) = i)"
  by (simp add: contains_def)

lemma filter_absent:
  "\<not> contains s j \<Longrightarrow> filter (\<lambda>x. js_or (key x) (title x) \<noteq> j) s = s"
  by (induction s) (auto simp: contains_def)

text \<open>
  C8. Toggling a record twice leaves the membership of every identity in the bookmarks
  store as it was; when the record's identity was absent the store is exactly the one
  before, so two toggles on the empty store leave it empty.
\<close>

theorem toggle_twice_membership:
  "contains (bookmarks (toggleBookmark (toggleBookmark st b) b)) i = contains (bookmarks st) i
   \<and> (\<not> contains (bookmarks st) (bookId b) \<longrightarrow>
        bookmarks (toggleBookmark (toggleBookmark st b) b) = bookmarks st)
   \<and> (bookmarks st = [] \<longrightarrow> bookmarks (toggleBookmark (toggleBookmark st b) b) = [])"
proof -
  have absent: "bookmarks (toggleBookmark (toggleBookmark st b) b) = bookmarks st"
    if "\<not> contains (bookmarks st) (bookId b)"
    using that
    by (simp add: toggleBookmark_def bookId_def contains_append contains_single filter_absent)
  have member: "contains (bookmarks (toggleBookmark (toggleBookmark st b) b)) i
      = contains (bookmarks st) i"
  proof (cases "contains (bookmarks st) (bookId b)")
    case True
    then show ?thesis
      by (auto simp: toggleBookmark_def bookId_def contains_append contains_single contains_filter)
  next
    case False
    then show ?thesis by (simp add: absent)
  qed
  have empty: "bookmarks (toggleBookmark (toggleBookmark st b) b) = []"
    if "bookmarks st = []"
  proof -
    from that have "\<not> contains (bookmarks st) (bookId b)" by (simp add: contains_def)
    then show ?thesis using absent that by simp
  qed
  from member absent empty show ?thesis by (intro conjI impI)
qed

theorem toggle_twice_membership_witness:
  "bookmarks initial = []
   \<and> bookmarks (toggleBookmark initial dune) = [dune]
   \<and> bookmarks (toggleBookmark (toggleBookmark initial dune) dune) = []
   \<and> contains (bookmarks (toggleBookmark (toggleBookmark initial dune) dune)) (JStr ''/works/OL1W'')
       = contains (bookmarks initial) (JStr ''/works/OL1W'')"
  using toggle_twice_membership [of initial dune "JStr ''/works/OL1W''"]
  by (simp add: initial_def toggleBookmark_def contains_def)

lemma contains_image: "contains s i = (i \<in> bookId ` set s)"
  by (auto simp: contains_def bookId_def list_ex_iff)

lemma bookId_addedDate: "bookId (b\<lparr> addedDate := d \<rparr>) = bookId b"
  by (simp add: bookId_def)

lemma distinct_ids_filter:
  "distinct (map bookId s) \<Longrightarrow> distinct (map bookId (filter P s))"
  by (simp add: distinct_map_filter)

lemma distinct_ids_toggle:
  "distinct (map bookId s) \<Longrightarrow>
   distinct (map bookId (if contains s (bookId b)
      then filter (\<lambda>x. js_or (key x) (title x) \<noteq> bookId b) s else s @ [b]))"
  by (simp add: distinct_ids_filter contains_image)

lemma distinct_ids_add:
  "distinct (map bookId s) \<Longrightarrow>
   distinct (map bookId (if \<not> contains s (bookId b) then s @ [b\<lparr> addedDate := d \<rparr>] else s))"
  by (simp add: contains_image bookId_addedDate)

lemma fetchBooks_stores:
  "bookmarks (fetchBooks st q t p a) = bookmarks st"
  "readingList (fetchBooks st q t p a) = readingList st"
  by (simp_all add: fetchBooks_def)

lemma fetchBooks_resume_stores:
  "bookmarks (fetchBooks_resume st r resp) = bookmarks st"
  "readingList (fetchBooks_resume st r resp) = readingList st"
  by (simp_all add: fetchBooks_resume_def fetch_failed_def fetch_parsed_def
      split: sum.splits option.splits)

lemma settle_stores:
  "bookmarks (settle st i resp) = bookmarks st"
  "readingList (settle st i resp) = readingList st"
  by (simp_all add: settle_def fetchBooks_resume_stores)

lemma toggleBookmark_distinct:
  "stores_distinct st \<Longrightarrow> stores_distinct (toggleBookmark st b)"
  by (simp add: stores_distinct_def toggleBookmark_def distinct_ids_toggle)

lemma addToReadingList_distinct:
  "stores_distinct st \<Longrightarrow> stores_distinct (addToReadingList st b now)"
  by (simp add: stores_distinct_def addToReadingList_def distinct_ids_add)

lemma removeFromReadingList_distinct:
  "stores_distinct st \<Longrightarrow> stores_distinct (removeFromReadingList st i)"
  by (simp add: stores_distinct_def removeFromReadingList_def distinct_ids_filter)

lemma step_distinct: "stores_distinct st \<Longrightarrow> stores_distinct (step st ev)"
proof (cases ev)
  case (Toggle_bookmark b)
  assume "stores_distinct st"
  with Toggle_bookmark show ?thesis by (simp add: toggleBookmark_distinct)
next
  case (Add_to_list b now)
  assume "stores_distinct st"
  with Add_to_list show ?thesis by (simp add: addToReadingList_distinct)
next
  case (Remove_from_list i)
  assume "stores_distinct st"
  with Remove_from_list show ?thesis by (simp add: removeFromReadingList_distinct)
qed (simp_all add: stores_distinct_def setSearchQuery_def handleSearch_def handleLoadMore_def
      handleSearchTypeChange_def handleQuickSearch_def handleFilterChange_def
      clearFilters_def fetchBooks_stores settle_stores)

lemma run_snoc: "run st (evs @ [ev]) = step (run st evs) ev"
  by (simp add: run_def)

lemma run_distinct: "stores_distinct (run initial evs)"
proof (induction evs rule: rev_induct)
  case Nil
  show ?case by (simp add: run_def stores_distinct_def initial_def)
next
  case (snoc ev evs)
  then show ?case by (simp add: run_snoc step_distinct)
qed

lemma count_after_add:
  assumes "distinct (map bookId s)" and "contains s i"
  shows "length (filter (\<lambda>x. bookId x = i) s) = 1"
  using assms
proof (induction s)
  case Nil
  then show ?case by (simp add: contains_def)
next
  case (Cons x s)
  show ?case
  proof (cases "bookId x = i")
    case True
    with Cons.prems have "i \<notin> bookId ` set s" by simp
    then have "\<forall>y\<in>set s. bookId y \<noteq> i" by blast
    then have "filter (\<lambda>x. bookId x = i) s = []" by (simp add: filter_empty_conv)
    with True show ?thesis by simp
  next
    case False
    with Cons.prems have "contains s i" by (simp add: contains_image)
    with Cons False show ?thesis by simp
  qed
qed

lemma contains_after_add:
  "contains (readingList (addToReadingList st b now)) (bookId b)"
  by (simp add: addToReadingList_def contains_append contains_single bookId_def)

text \<open>
  C9. Adding a record whose identity is already in the reading list changes nothing.
  After any run of the component from its initial state neither store holds two entries
  of one identity, and adding two records of one identity to the reading list leaves
  exactly one entry of that identity.
\<close>

theorem reading_list_add_once:
  "(contains (readingList st) (bookId b) \<longrightarrow> addToReadingList st b now = st)
   \<and> distinct (map bookId (bookmarks (run initial evs)))
   \<and> distinct (map bookId (readingList (run initial evs)))
   \<and> (bookId b' = bookId b \<longrightarrow>
        length (filter (\<lambda>x. bookId x = bookId b)
          (readingList (addToReadingList (addToReadingList (run initial evs) b t1) b' t2))) = 1)"
proof -
  let ?s = "run initial evs"
  have noop: "addToReadingList st b now = st" if "contains (readingList st) (bookId b)"
    using that by (simp add: addToReadingList_def)
  have d: "stores_distinct ?s" by (rule run_distinct)
  have twice: "length (filter (\<lambda>x. bookId x = bookId b)
          (readingList (addToReadingList (addToReadingList ?s b t1) b' t2))) = 1"
    if same: "bookId b' = bookId b"
  proof -
    let ?a = "addToReadingList ?s b t1"
    have "contains (readingList ?a) (bookId b')"
      using contains_after_add [of ?s b t1] same by simp
    then have "addToReadingList ?a b' t2 = ?a" by (simp add: addToReadingList_def)
    moreover have "stores_distinct ?a" using d by (rule addToReadingList_distinct)
    then have "distinct (map bookId (readingList ?a))" by (simp add: stores_distinct_def)
    then have "length (filter (\<lambda>x. bookId x = bookId b) (readingList ?a)) = 1"
      using contains_after_add [of ?s b t1] by (rule count_after_add)
    ultimately show ?thesis by simp
  qed
  from d have "distinct (map bookId (bookmarks ?s))" "distinct (map bookId (readingList ?s))"
    by (simp_all add: stores_distinct_def)
  with noop twice show ?thesis by (intro conjI impI)
qed

theorem reading_list_add_once_witness:
  "contains (readingList (addToReadingList initial dune ''2024-01-01T00:00:00.000Z''))
     (bookId (dune\<lparr> cover_i := Some 7 \<rparr>))
   \<and> addToReadingList (addToReadingList initial dune ''2024-01-01T00:00:00.000Z'')
        (dune\<lparr> cover_i := Some 7 \<rparr>) ''2024-01-02T00:00:00.000Z''
      = addToReadingList initial dune ''2024-01-01T00:00:00.000Z''
   \<and> readingList (addToReadingList initial dune ''2024-01-01T00:00:00.000Z'')
      = [dune\<lparr> addedDate := Some ''2024-01-01T00:00:00.000Z'' \<rparr>]
   \<and> bookId (dune\<lparr> cover_i := Some 7 \<rparr>) = bookId dune
   \<and> length (filter (\<lambda>x. bookId x = bookId dune)
        (readingList (addToReadingList
           (addToReadingList (run initial [Toggle_bookmark dune]) dune
              ''2024-01-01T00:00:00.000Z'')
           (dune\<lparr> cover_i := Some 7 \<rparr>) ''2024-01-02T00:00:00.000Z''))) = 1"
  using reading_list_add_once [of "addToReadingList initial dune ''2024-01-01T00:00:00.000Z''"
      "dune\<lparr> cover_i := Some 7 \<rparr>" "''2024-01-02T00:00:00.000Z''" "[]" dune "[]" "[]"]
    reading_list_add_once [of initial dune "[]" "[Toggle_bookmark dune]"
      "dune\<lparr> cover_i := Some 7 \<rparr>" "''2024-01-01T00:00:00.000Z''"
      "''2024-01-02T00:00:00.000Z''"]
  by (simp add: addToReadingList_def initial_def contains_def bookId_def dune_def mk_book_def
      js_or_def)

section \<open>Identity by truthiness\<close>

text \<open>
  C10. The identity of a record is its key when the key is truthy and its title
  otherwise: a key that is the empty string, or any other falsy value, gives the title,
  and a record with neither key nor title has the identity \<open>undefined\<close>. Two records of
  one identity, so any two records with neither key nor title, are one member for both
  stores: each shows as bookmarked and as listed once the other is, toggling one after
  the other removes the bookmark, and adding one after the other adds nothing.
\<close>

theorem identity_by_truthiness:
  "(truthy (key b) \<longrightarrow> bookId b = key b)
   \<and> (\<not> truthy (key b) \<longrightarrow> bookId b = title b)
   \<and> (key b = JStr [] \<longrightarrow> bookId b = title b)
   \<and> (key b = JUndefined \<and> title b = JUndefined \<longrightarrow> bookId b = JUndefined)
   \<and> (key b = JUndefined \<and> title b = JUndefined \<and> key c = JUndefined \<and> title c = JUndefined
        \<longrightarrow> bookId c = bookId b)
   \<and> (bookId c = bookId b \<longrightarrow>
        isBookmarked (bookmarks st) c = isBookmarked (bookmarks st) b
        \<and> isInReadingList (readingList st) c = isInReadingList (readingList st) b
        \<and> (\<not> isBookmarked (bookmarks st) b \<longrightarrow>
             isBookmarked (bookmarks (toggleBookmark st b)) c
             \<and> bookmarks (toggleBookmark (toggleBookmark st b) c) = bookmarks st)
        \<and> isInReadingList (readingList (addToReadingList st b now)) c
        \<and> addToReadingList (addToReadingList st b now) c now' = addToReadingList st b now)"
proof -
  have ids: "(truthy (key b) \<longrightarrow> bookId b = key b)"
    "(\<not> truthy (key b) \<longrightarrow> bookId b = title b)"
    "(key b = JStr [] \<longrightarrow> bookId b = title b)"
    "(key b = JUndefined \<and> title b = JUndefined \<longrightarrow> bookId b = JUndefined)"
    "(key b = JUndefined \<and> title b = JUndefined \<and> key c = JUndefined \<and> title c = JUndefined
        \<longrightarrow> bookId c = bookId b)"
    by (simp_all add: bookId_def js_or_def)
  have stores: "isBookmarked (bookmarks st) c = isBookmarked (bookmarks st) b
        \<and> isInReadingList (readingList st) c = isInReadingList (readingList st) b
        \<and> (\<not> isBookmarked (bookmarks st) b \<longrightarrow>
             isBookmarked (bookmarks (toggleBookmark st b)) c
             \<and> bookmarks (toggleBookmark (toggleBookmark st b) c) = bookmarks st)
        \<and> isInReadingList (readingList (addToReadingList st b now)) c
        \<and> addToReadingList (addToReadingList st b now) c now' = addToReadingList st b now"
    if same: "bookId c = bookId b"
  proof -
    have flags: "isBookmarked (bookmarks st) c = isBookmarked (bookmarks st) b"
      "isInReadingList (readingList st) c = isInReadingList (readingList st) b"
      using same by (simp_all add: isBookmarked_def isInReadingList_def)
    have listed: "contains (readingList (addToReadingList st b now)) (bookId c)"
      using contains_after_add [of st b now] same by simp
    then have again: "addToReadingList (addToReadingList st b now) c now'
        = addToReadingList st b now"
      by (simp add: addToReadingList_def)
    have marks: "isBookmarked (bookmarks (toggleBookmark st b)) c
        \<and> bookmarks (toggleBookmark (toggleBookmark st b) c) = bookmarks st"
      if "\<not> isBookmarked (bookmarks st) b"
      using that same
      by (simp add: isBookmarked_def toggleBookmark_def contains_append contains_single
          filter_absent bookId_def)
    from flags listed again marks show ?thesis
      by (simp add: isInReadingList_def)
  qed
  from ids stores show ?thesis by (intro conjI impI) auto
qed

theorem identity_by_truthiness_witness:
  "bookId ((mk_book [] ''Dune'')) = JStr ''Dune''
   \<and> bookId (untitled None) = JUndefined
   \<and> bookId (untitled (Some [''Frank Herbert''])) = bookId (untitled None)
   \<and> untitled (Some [''Frank Herbert'']) \<noteq> untitled None
   \<and> bookmarks (toggleBookmark (toggleBookmark initial (untitled None))
        (untitled (Some [''Frank Herbert'']))) = []
   \<and> readingList (addToReadingList (addToReadingList initial (untitled None) ''t1'')
        (untitled (Some [''Frank Herbert''])) ''t2'')
      = [(untitled None)\<lparr> addedDate := Some ''t1'' \<rparr>]"
  using identity_by_truthiness [of "mk_book [] ''Dune''"]
    identity_by_truthiness [of "untitled None" "untitled (Some [''Frank Herbert''])" initial
      "''t1''" "''t2''"]
  by (simp add: untitled_def mk_book_def initial_def isBookmarked_def contains_def
      addToReadingList_def bookId_def js_or_def)

section \<open>Session controller\<close>

lemma fetchBooks_issues:
  "trim q \<noteq> [] \<Longrightarrow>
   fetchBooks st q t p a =
     st\<lparr> loading := True, error := None,
         inflight := inflight st @ [build_request (filters st) q t p a] \<rparr>"
  by (simp add: fetchBooks_def)

lemma handleSearch_issues:
  "trim (searchQuery st) \<noteq> [] \<Longrightarrow>
   handleSearch st =
     st\<lparr> currentPage := 1, loading := True, error := None,
         inflight := inflight st
           @ [build_request (filters st) (searchQuery st) (searchType st) 1 False] \<rparr>"
  by (simp add: handleSearch_def fetchBooks_def)

lemma handleLoadMore_issues:
  "hasMoreResults st \<Longrightarrow> \<not> loading st \<Longrightarrow> trim (searchQuery st) \<noteq> [] \<Longrightarrow>
   handleLoadMore st =
     st\<lparr> loading := True, error := None,
         inflight := inflight st
           @ [build_request (filters st) (searchQuery st) (searchType st)
                (currentPage st + 1) True] \<rparr>"
  by (simp add: handleLoadMore_def fetchBooks_def)

lemma search_then_resume:
  "trim (searchQuery st) \<noteq> [] \<Longrightarrow>
   search_then st resp =
     fetchBooks_resume (st\<lparr> currentPage := 1, loading := True, error := None \<rparr>)
       (build_request (filters st) (searchQuery st) (searchType st) 1 False) resp"
  by (simp add: search_then_def handleSearch_issues settle_def nth_append)

lemma loadMore_then_resume:
  "hasMoreResults st \<Longrightarrow> \<not> loading st \<Longrightarrow> trim (searchQuery st) \<noteq> [] \<Longrightarrow>
   loadMore_then st resp =
     fetchBooks_resume (st\<lparr> loading := True, error := None \<rparr>)
       (build_request (filters st) (searchQuery st) (searchType st) (currentPage st + 1) True)
       resp"
  by (simp add: loadMore_then_def handleLoadMore_issues settle_def nth_append)

lemma resume_failed:
  "await_docs resp = Inl m \<Longrightarrow>
   fetchBooks_resume st r resp =
     st\<lparr> error := Some (''Failed to fetch books: '' @ m),
         books := (if \<not> req_append r then [] else books st), loading := False \<rparr>"
  by (simp add: fetchBooks_resume_def fetch_failed_def)

lemma resume_parsed:
  "await_docs resp = Inr docs \<Longrightarrow>
   fetchBooks_resume st r resp = (fetch_parsed st r docs)\<lparr> loading := False \<rparr>"
  by (simp add: fetchBooks_resume_def)

lemma await_docs_ok: "ok code \<Longrightarrow> await_docs (Http code (Parsed docs)) = Inr docs"
  by (simp add: await_docs_def)

lemma fetch_parsed_fields:
  "books (fetch_parsed st r docs) = (if req_append r then books st @ batch docs else batch docs)"
  "hasMoreResults (fetch_parsed st r docs) = (length (batch docs) = 12)"
  "currentPage (fetch_parsed st r docs) = (if batch docs \<noteq> [] then req_page r else currentPage st)"
  "error (fetch_parsed st r docs) = error st"
  "inflight (fetch_parsed st r docs) = inflight st"
  "searchQuery (fetch_parsed st r docs) = searchQuery st"
  by (simp_all add: fetch_parsed_def batch_def split: option.splits)

lemma utf16_Nil: "(utf16 s = []) = (s = [])"
  by (simp add: utf16_def)

lemma trim_examples:
  "trim (utf16 ''dune'') = utf16 ''dune''"
  "trim (utf16 ''emma'') = utf16 ''emma''"
  "trim (utf16 ''1984'') = utf16 ''1984''"
  by (simp_all add: trim_def is_space_def utf16_def)

lemma trim_empty_iff: "(trim s = []) = (\<forall>c\<in>set s. is_space c)"
proof -
  have "(trim s = []) = (\<forall>c\<in>set (dropWhile is_space s). is_space c)"
    by (simp add: trim_def dropWhile_eq_Nil_conv)
  also have "\<dots> = (dropWhile is_space s = [])"
  proof (cases "dropWhile is_space s")
    case Nil
    show ?thesis unfolding Nil by simp
  next
    case (Cons x xs)
    then have "\<not> is_space (hd (dropWhile is_space s))"
      using hd_dropWhile [of is_space s] by simp
    with Cons show ?thesis by auto
  qed
  also have "\<dots> = (\<forall>c\<in>set s. is_space c)"
    by (simp add: dropWhile_eq_Nil_conv)
  finally show ?thesis .
qed

text \<open>
  C7. When the query text is empty or only white space, \<open>search()\<close> does nothing: the
  whole state, and with it the calls in flight, the status, the results, the page and
  \<open>hasMore\<close>, stays as it was. \<open>fetchBooks\<close> itself returns at once on such a query.
  The queries that trim to nothing are exactly those made of white space only, the
  empty one among them.
\<close>

theorem blank_search_noop:
  "(trim (searchQuery st) = [] \<longrightarrow> handleSearch st = st)
   \<and> (trim q = [] \<longrightarrow> fetchBooks st q t p a = st)
   \<and> (trim q = []) = (\<forall>c\<in>set q. is_space c)
   \<and> (searchQuery st = [] \<longrightarrow> handleSearch st = st)
   \<and> ((\<forall>c\<in>set (searchQuery st). is_space c) \<longrightarrow> handleSearch st = st)
   \<and> ((\<forall>c\<in>set q. is_space c) \<longrightarrow> fetchBooks st q t p a = st)"
proof -
  have trimmed: "handleSearch st = st" if "trim (searchQuery st) = []"
    using that by (simp add: handleSearch_def)
  have fetch: "fetchBooks st q t p a = st" if "trim q = []"
    using that by (simp add: fetchBooks_def)
  have "trim (searchQuery st) = []" if "searchQuery st = []"
    using that by (simp add: trim_def)
  with trimmed have empty: "searchQuery st = [] \<longrightarrow> handleSearch st = st" by blast
  from trimmed have white: "(\<forall>c\<in>set (searchQuery st). is_space c) \<longrightarrow> handleSearch st = st"
    by (simp add: trim_empty_iff)
  from fetch have white': "(\<forall>c\<in>set q. is_space c) \<longrightarrow> fetchBooks st q t p a = st"
    by (simp add: trim_empty_iff)
  from trimmed fetch empty white white' show ?thesis
    by (simp add: trim_empty_iff)
qed

theorem blank_search_noop_witness:
  "list_all is_space white_space
   \<and> length white_space = 25
   \<and> trim white_space = []
   \<and> handleSearch (setSearchQuery initial white_space) = setSearchQuery initial white_space
   \<and> inflight (handleSearch (setSearchQuery initial white_space)) = []
   \<and> fetchBooks initial white_space ''title'' 1 False = initial
   \<and> handleSearch (setSearchQuery initial [0x00A0]) = setSearchQuery initial [0x00A0]
   \<and> searchQuery initial = [] \<and> handleSearch initial = initial
   \<and> \<not> is_space 0x200B \<and> \<not> is_space 0x0085
   \<and> inflight (handleSearch (setSearchQuery initial [0x200B])) \<noteq> []"
proof -
  have all: "list_all is_space white_space" "length white_space = 25"
    by (simp_all add: is_space_def white_space_def)
  have blank: "trim white_space = []"
    by (simp add: trim_def is_space_def white_space_def)
  have query: "searchQuery (setSearchQuery initial white_space) = white_space"
    "searchQuery (setSearchQuery initial [0x00A0]) = [0x00A0]"
    "searchQuery initial = []"
    by (simp_all add: setSearchQuery_def initial_def)
  have nbsp: "trim [0x00A0] = []"
    by (simp add: trim_def is_space_def)
  have other: "\<not> is_space 0x200B" "\<not> is_space 0x0085"
    by (simp_all add: is_space_def)
  then have "trim [0x200B] \<noteq> []" by (simp add: trim_def)
  then have issued: "inflight (handleSearch (setSearchQuery initial [0x200B])) \<noteq> []"
    by (simp add: handleSearch_def fetchBooks_def setSearchQuery_def)
  from blank_search_noop [of "setSearchQuery initial white_space" white_space "''title''" 1 False]
    blank query
  have a: "handleSearch (setSearchQuery initial white_space) = setSearchQuery initial white_space"
    by simp
  then have a': "inflight (handleSearch (setSearchQuery initial white_space)) = []"
    by (simp add: setSearchQuery_def initial_def)
  from blank_search_noop [of initial white_space "''title''" 1 False] blank query
  have b: "fetchBooks initial white_space ''title'' 1 False = initial"
    "handleSearch initial = initial"
    by simp_all
  from blank_search_noop [of "setSearchQuery initial [0x00A0]" "[0x00A0]" "''title''" 1 False]
    nbsp query
  have c: "handleSearch (setSearchQuery initial [0x00A0]) = setSearchQuery initial [0x00A0]"
    by simp
  from all blank a a' b c query(3) other issued show ?thesis by simp
qed

text \<open>
  C5. When a fetch returns a batch, \<open>hasMore\<close> becomes true exactly when the batch holds
  12 records, so an empty, absent or short batch makes it false; 12 is the \<open>limit\<close> of
  every request that \<open>fetchBooks\<close> issues.
\<close>

theorem hasMore_iff_full_batch:
  "(ok code \<and> i < length (inflight st) \<longrightarrow>
      hasMoreResults (settle st i (Http code (Parsed docs))) = (length (batch docs) = 12))
   \<and> (trim q \<noteq> [] \<longrightarrow> req_limit (last (inflight (fetchBooks st q t p a))) = 12)"
  by (simp add: settle_def resume_parsed await_docs_ok fetch_parsed_fields fetchBooks_issues
      build_request_def)

theorem hasMore_iff_full_batch_witness:
  "ok 200 \<and> 0 < length (inflight (handleSearch typed_dune))
   \<and> hasMoreResults (settle (handleSearch typed_dune) 0 full_page)
   \<and> \<not> hasMoreResults (settle (handleSearch typed_dune) 0 (Http 200 (Parsed (Some (shelf 11)))))
   \<and> \<not> hasMoreResults (settle (handleSearch typed_dune) 0 (Http 200 (Parsed (Some []))))
   \<and> \<not> hasMoreResults (settle (handleSearch typed_dune) 0 (Http 200 (Parsed None)))
   \<and> trim (utf16 ''dune'') \<noteq> []
   \<and> req_limit (last (inflight (fetchBooks initial (utf16 ''dune'') ''title'' 1 False))) = 12"
  using hasMore_iff_full_batch [of 200 0 "handleSearch typed_dune" "Some (shelf 12)"]
    hasMore_iff_full_batch [of _ _ initial _ "utf16 ''dune''" "''title''" 1 False]
    hasMore_iff_full_batch [of 200 0 "handleSearch typed_dune" "Some (shelf 11)"]
    hasMore_iff_full_batch [of 200 0 "handleSearch typed_dune" "Some []"]
    hasMore_iff_full_batch [of 200 0 "handleSearch typed_dune" "None"]
  by (simp add: ok_def typed_dune_def setSearchQuery_def handleSearch_def fetchBooks_def
      trim_examples utf16_Nil full_page_def batch_def shelf_def)

lemmas run_defs = run_def initial_def typed_dune_def full_page_def shelf_def mk_book_def dune_def
  setSearchQuery_def handleSearch_def handleLoadMore_def handleQuickSearch_def
  handleSearchTypeChange_def quickSearchSuggestions_def search_then_def loadMore_then_def
  settle_def fetchBooks_def fetchBooks_resume_def await_docs_def ok_def fetch_parsed_def
  fetch_failed_def build_request_def nonempty_opt_def status_of_def batch_def
  trim_examples utf16_Nil digit_char_def

lemma resume_failed_fields:
  assumes "await_docs resp = Inl m"
  shows "error (fetchBooks_resume st r resp) = Some (''Failed to fetch books: '' @ m)"
    and "status_of (fetchBooks_resume st r resp) = Error"
    and "books (fetchBooks_resume st r resp) = (if req_append r then books st else [])"
  using assms by (simp_all add: resume_failed status_of_def)

text \<open>
  C4. A fetch fails when \<open>fetch\<close> rejects, when the response status is not a success or
  when the body does not parse. Every failed fetch leaves the status at error, with the
  message \<open>Failed to fetch books:\<close> followed by the cause. A failed \<open>search()\<close> leaves the
  results empty; a failed \<open>loadMore()\<close> leaves them as they were.
\<close>

theorem failed_fetch_sets_error:
  "await_docs (Rejected m) = Inl m
   \<and> (\<not> ok code \<longrightarrow> await_docs (Http code b) = Inl (''HTTP error! status: '' @ show_nat code))
   \<and> (ok code \<longrightarrow> await_docs (Http code (Malformed m)) = Inl m)
   \<and> (await_docs resp = Inl msg \<longrightarrow>
        (i < length (inflight st) \<longrightarrow>
           error (settle st i resp) = Some (''Failed to fetch books: '' @ msg)
           \<and> status_of (settle st i resp) = Error
           \<and> books (settle st i resp) = (if req_append (inflight st ! i) then books st else []))
        \<and> (trim (searchQuery st) \<noteq> [] \<longrightarrow>
             error (search_then st resp) = Some (''Failed to fetch books: '' @ msg)
             \<and> status_of (search_then st resp) = Error
             \<and> books (search_then st resp) = [])
        \<and> (hasMoreResults st \<and> \<not> loading st \<and> trim (searchQuery st) \<noteq> [] \<longrightarrow>
             error (loadMore_then st resp) = Some (''Failed to fetch books: '' @ msg)
             \<and> status_of (loadMore_then st resp) = Error
             \<and> books (loadMore_then st resp) = books st))"
proof -
  have kinds: "await_docs (Rejected m) = Inl m"
    "\<not> ok code \<longrightarrow> await_docs (Http code b) = Inl (''HTTP error! status: '' @ show_nat code)"
    "ok code \<longrightarrow> await_docs (Http code (Malformed m)) = Inl m"
    by (simp_all add: await_docs_def)
  have any: "error (settle st i resp) = Some (''Failed to fetch books: '' @ msg)
           \<and> status_of (settle st i resp) = Error
           \<and> books (settle st i resp) = (if req_append (inflight st ! i) then books st else [])"
    if "await_docs resp = Inl msg" "i < length (inflight st)"
    using that by (simp add: settle_def resume_failed_fields)
  have search: "error (search_then st resp) = Some (''Failed to fetch books: '' @ msg)
             \<and> status_of (search_then st resp) = Error
             \<and> books (search_then st resp) = []"
    if "await_docs resp = Inl msg" "trim (searchQuery st) \<noteq> []"
    using that by (simp add: search_then_resume resume_failed_fields build_request_def)
  have more: "error (loadMore_then st resp) = Some (''Failed to fetch books: '' @ msg)
             \<and> status_of (loadMore_then st resp) = Error
             \<and> books (loadMore_then st resp) = books st"
    if "await_docs resp = Inl msg" "hasMoreResults st \<and> \<not> loading st \<and> trim (searchQuery st) \<noteq> []"
    using that by (simp add: loadMore_then_resume resume_failed_fields build_request_def)
  from kinds any search more show ?thesis by blast
qed

theorem failed_fetch_sets_error_witness:
  "\<not> ok 500
   \<and> await_docs (Http 500 (Parsed None)) = Inl ''HTTP error! status: 500''
   \<and> trim (searchQuery typed_dune) \<noteq> []
   \<and> error (search_then typed_dune (Http 500 (Parsed None)))
        = Some ''Failed to fetch books: HTTP error! status: 500''
   \<and> books (search_then typed_dune (Http 500 (Parsed None))) = []
   \<and> hasMoreResults (search_then typed_dune full_page)
   \<and> \<not> loading (search_then typed_dune full_page)
   \<and> status_of (loadMore_then (search_then typed_dune full_page) (Http 500 (Parsed None))) = Error
   \<and> books (loadMore_then (search_then typed_dune full_page) (Http 500 (Parsed None))) = shelf 12"
  using failed_fetch_sets_error [of "[]" 500 "Parsed None" "Http 500 (Parsed None)"
      "''HTTP error! status: 500''" 0 typed_dune]
    failed_fetch_sets_error [of "[]" 500 "Parsed None" "Http 500 (Parsed None)"
      "''HTTP error! status: 500''" 0 "search_then typed_dune full_page"]
  by (simp add: run_defs)




text \<open>
  C2 as stated fails: \<open>fetchBooks\<close> compares nothing when a response arrives. Here a
  search for another query is submitted while the fetch of \<open>loadMore()\<close> is in flight; the
  response of the search arrives first and replaces the results, and the late response
  of the \<open>loadMore()\<close> is then appended to them and sets the page to 2.
\<close>

theorem stale_response_counterexample:
  "map req_append (inflight (run initial (take 6 stale_run))) = [True, False]
   \<and> map req_query (inflight (run initial (take 6 stale_run))) = [utf16 ''dune'', utf16 ''emma'']
   \<and> books (run initial stale_run) = [emma]
   \<and> currentPage (run initial stale_run) = 1
   \<and> searchQuery (run initial stale_run) = utf16 ''emma''
   \<and> map req_query (inflight (run initial stale_run)) = [utf16 ''dune'']
   \<and> books (run initial (stale_run @ [Arrive 0 dune_page_2])) = [emma, dune]
   \<and> currentPage (run initial (stale_run @ [Arrive 0 dune_page_2])) = 2"
  by (simp add: stale_run_def dune_page_2_def emma_def run_defs)

text \<open>
  C2, amended. No response is discarded. When the response to a fetch arrives with a
  batch that is not empty, the batch is appended to the results the controller holds at
  that moment if the fetch was issued by \<open>loadMore()\<close> and replaces them if it was issued
  by \<open>search()\<close>, and the page becomes the page the fetch was issued for, whatever was
  searched or fetched in between.
\<close>

theorem every_response_is_applied:
  "i < length (inflight st) \<and> ok code \<and> d \<noteq> [] \<longrightarrow>
     books (settle st i (Http code (Parsed (Some d))))
       = (if req_append (inflight st ! i) then books st @ d else d)
     \<and> currentPage (settle st i (Http code (Parsed (Some d)))) = req_page (inflight st ! i)
     \<and> inflight (settle st i (Http code (Parsed (Some d))))
       = take i (inflight st) @ drop (Suc i) (inflight st)"
  by (simp add: settle_def resume_parsed await_docs_ok fetch_parsed_fields batch_def)

theorem every_response_is_applied_witness:
  "0 < length (inflight (run initial stale_run)) \<and> ok 200 \<and> [dune] \<noteq> []
   \<and> req_append (inflight (run initial stale_run) ! 0)
   \<and> req_page (inflight (run initial stale_run) ! 0) = 2
   \<and> books (settle (run initial stale_run) 0 (Http 200 (Parsed (Some [dune]))))
       = books (run initial stale_run) @ [dune]
   \<and> currentPage (settle (run initial stale_run) 0 (Http 200 (Parsed (Some [dune])))) = 2
   \<and> inflight (settle (run initial stale_run) 0 (Http 200 (Parsed (Some [dune])))) = []"
  using every_response_is_applied [of 0 "run initial stale_run" 200 "[dune]"]
  by (simp add: stale_run_def emma_def run_defs)

lemma loadMore_issued_iff:
  "(length (inflight (handleLoadMore st)) = Suc (length (inflight st)))
   = (hasMoreResults st \<and> \<not> loading st \<and> trim (searchQuery st) \<noteq> [])"
  by (simp add: handleLoadMore_def fetchBooks_def)

lemma loadMore_then_parsed:
  assumes "hasMoreResults st" "\<not> loading st" "trim (searchQuery st) \<noteq> []" "ok code"
  shows "books (loadMore_then st (Http code (Parsed docs))) = books st @ batch docs"
    and "currentPage (loadMore_then st (Http code (Parsed docs)))
         = (if batch docs \<noteq> [] then currentPage st + 1 else currentPage st)"
    and "hasMoreResults (loadMore_then st (Http code (Parsed docs))) = (length (batch docs) = 12)"
    and "\<not> loading (loadMore_then st (Http code (Parsed docs)))"
    and "error (loadMore_then st (Http code (Parsed docs))) = None"
    and "searchQuery (loadMore_then st (Http code (Parsed docs))) = searchQuery st"
  using assms
  by (simp_all add: loadMore_then_resume resume_parsed await_docs_ok
      fetch_parsed_fields build_request_def)

lemma loadMore_then_page:
  assumes "hasMoreResults st" "\<not> loading st" "trim (searchQuery st) \<noteq> []" "ok code"
  shows "books (loadMore_then st (page_of code d)) = books st @ d"
    and "currentPage (loadMore_then st (page_of code d))
         = (if d \<noteq> [] then currentPage st + 1 else currentPage st)"
    and "hasMoreResults (loadMore_then st (page_of code d)) = (length d = 12)"
    and "\<not> loading (loadMore_then st (page_of code d))"
    and "searchQuery (loadMore_then st (page_of code d)) = searchQuery st"
  using loadMore_then_parsed [OF assms, of "Some d"]
  by (simp_all add: page_of_def batch_def)

lemma search_then_page:
  assumes "trim (searchQuery st) \<noteq> []" "ok code"
  shows "books (search_then st (Http code (Parsed docs))) = batch docs"
    and "currentPage (search_then st (Http code (Parsed docs))) = 1"
    and "hasMoreResults (search_then st (Http code (Parsed docs))) = (length (batch docs) = 12)"
    and "\<not> loading (search_then st (Http code (Parsed docs)))"
    and "error (search_then st (Http code (Parsed docs))) = None"
    and "searchQuery (search_then st (Http code (Parsed docs))) = searchQuery st"
  using assms
  by (simp_all add: search_then_resume resume_parsed await_docs_ok
      fetch_parsed_fields build_request_def)

lemma loadMore_calls_pages:
  assumes "ok code"
    and "loadMore_calls st (map (page_of code) ds) = Some st'"
  shows "books st' = books st @ concat ds
    \<and> currentPage st' = currentPage st + length (filter (\<lambda>d. d \<noteq> []) ds)"
  using assms(2)
proof (induction ds arbitrary: st)
  case Nil
  then show ?case by simp
next
  case (Cons d ds)
  from Cons.prems have issued: "hasMoreResults st" "\<not> loading st" "trim (searchQuery st) \<noteq> []"
    and rest: "loadMore_calls (loadMore_then st (page_of code d)) (map (page_of code) ds) = Some st'"
    by (simp_all add: loadMore_issued_iff split: if_splits)
  from Cons.IH [OF rest] show ?case
    by (simp add: loadMore_then_page [OF issued assms(1)])
qed

lemma loadMore_calls_returns:
  assumes "ok code" "\<forall>d\<in>set (butlast ds). length d = 12"
    and "ds \<noteq> [] \<longrightarrow> hasMoreResults st" "\<not> loading st" "trim (searchQuery st) \<noteq> []"
  shows "loadMore_calls st (map (page_of code) ds) \<noteq> None"
  using assms(2-)
proof (induction ds arbitrary: st)
  case Nil
  then show ?case by simp
next
  case (Cons d ds)
  from Cons.prems have issued: "hasMoreResults st" "\<not> loading st" "trim (searchQuery st) \<noteq> []"
    by simp_all
  let ?s = "loadMore_then st (page_of code d)"
  have "loadMore_calls ?s (map (page_of code) ds) \<noteq> None"
  proof (rule Cons.IH)
    show "\<forall>d\<in>set (butlast ds). length d = 12" using Cons.prems(1) by (simp split: if_splits)
    show "ds \<noteq> [] \<longrightarrow> hasMoreResults ?s"
      using Cons.prems(1) by (simp add: loadMore_then_page [OF issued assms(1)])
    show "\<not> loading ?s" by (simp add: loadMore_then_page [OF issued assms(1)])
    show "trim (searchQuery ?s) \<noteq> []"
      using issued by (simp add: loadMore_then_page [OF issued assms(1)])
  qed
  then show ?case using issued by (simp add: loadMore_issued_iff)
qed

text \<open>
  C3 as stated fails on an empty batch: \<open>setCurrentPage(page)\<close> stands in the branch for
  a batch that is not empty only. Here the search returns 12 records and the one
  \<open>loadMore()\<close> after it returns none: the page is still 1.
\<close>

theorem loadMore_empty_batch_counterexample:
  "map_option currentPage (loadMore_calls (search_then typed_dune full_page) [page_of 200 []])
     = Some 1
   \<and> map_option books (loadMore_calls (search_then typed_dune full_page) [page_of 200 []])
     = Some (shelf 12)
   \<and> map_option status_of (loadMore_calls (search_then typed_dune full_page) [page_of 200 []])
     = Some Idle"
  by (simp add: page_of_def run_defs)

text \<open>
  C3, amended. After a successful search, let \<open>loadMore()\<close> be called N times with no
  search in between, each call fetching and getting back a batch. Then the results are
  the batch of page 1 followed by the batches of the later pages in the order they were
  fetched, and their length is the sum of the sizes of the batches. The page is 1 plus
  the number of batches that were not empty, so N + 1 when none was empty. The N calls
  do all fetch when the query is not blank and every batch before the last holds 12
  records. A \<open>loadMore()\<close> that fetches and gets back an empty or absent batch leaves the
  results and the page as they were, sets \<open>hasMore\<close> to false and ends idle.
\<close>

theorem loadMore_appends_pages:
  assumes "ok code" and "trim (searchQuery s) \<noteq> []"
  shows "(loadMore_calls (search_then s (page_of code d0)) (map (page_of code) ds) = Some st' \<longrightarrow>
            books st' = d0 @ concat ds
            \<and> length (books st') = length d0 + sum_list (map length ds)
            \<and> currentPage st' = length (filter (\<lambda>d. d \<noteq> []) ds) + 1
            \<and> ((\<forall>d\<in>set ds. d \<noteq> []) \<longrightarrow> currentPage st' = length ds + 1))
         \<and> ((ds \<noteq> [] \<longrightarrow> length d0 = 12) \<and> (\<forall>d\<in>set (butlast ds). length d = 12) \<longrightarrow>
            loadMore_calls (search_then s (page_of code d0)) (map (page_of code) ds) \<noteq> None)
         \<and> (hasMoreResults st \<and> \<not> loading st \<and> trim (searchQuery st) \<noteq> []
              \<and> batch docs = [] \<longrightarrow>
            books (loadMore_then st (Http code (Parsed docs))) = books st
            \<and> currentPage (loadMore_then st (Http code (Parsed docs))) = currentPage st
            \<and> \<not> hasMoreResults (loadMore_then st (Http code (Parsed docs)))
            \<and> status_of (loadMore_then st (Http code (Parsed docs))) = Idle)"
proof -
  let ?s = "search_then s (page_of code d0)"
  note first = search_then_page [OF assms(2) assms(1), of "Some d0", folded page_of_def]
  have pages: "books st' = d0 @ concat ds
      \<and> length (books st') = length d0 + sum_list (map length ds)
      \<and> currentPage st' = length (filter (\<lambda>d. d \<noteq> []) ds) + 1
      \<and> ((\<forall>d\<in>set ds. d \<noteq> []) \<longrightarrow> currentPage st' = length ds + 1)"
    if "loadMore_calls ?s (map (page_of code) ds) = Some st'"
  proof -
    from loadMore_calls_pages [OF assms(1) that]
    have b: "books st' = d0 @ concat ds"
      and p: "currentPage st' = length (filter (\<lambda>d. d \<noteq> []) ds) + 1"
      by (simp_all add: first batch_def)
    have "filter (\<lambda>d. d \<noteq> []) ds = ds" if "\<forall>d\<in>set ds. d \<noteq> []"
      using that by (simp add: filter_id_conv)
    with p have "(\<forall>d\<in>set ds. d \<noteq> []) \<longrightarrow> currentPage st' = length ds + 1" by simp
    with b p show ?thesis by (simp add: length_concat)
  qed
  have returns: "loadMore_calls ?s (map (page_of code) ds) \<noteq> None"
    if "(ds \<noteq> [] \<longrightarrow> length d0 = 12) \<and> (\<forall>d\<in>set (butlast ds). length d = 12)"
  proof (rule loadMore_calls_returns [OF assms(1)])
    show "\<forall>d\<in>set (butlast ds). length d = 12" using that by simp
    show "ds \<noteq> [] \<longrightarrow> hasMoreResults ?s" using that by (simp add: first batch_def)
    show "\<not> loading ?s" by (simp add: first)
    show "trim (searchQuery ?s) \<noteq> []" using assms(2) by (simp add: first)
  qed
  have empty: "books (loadMore_then st (Http code (Parsed docs))) = books st
      \<and> currentPage (loadMore_then st (Http code (Parsed docs))) = currentPage st
      \<and> \<not> hasMoreResults (loadMore_then st (Http code (Parsed docs)))
      \<and> status_of (loadMore_then st (Http code (Parsed docs))) = Idle"
    if "hasMoreResults st \<and> \<not> loading st \<and> trim (searchQuery st) \<noteq> [] \<and> batch docs = []"
  proof -
    from that have issued: "hasMoreResults st" "\<not> loading st" "trim (searchQuery st) \<noteq> []"
      and none: "batch docs = []" by simp_all
    from none show ?thesis
      by (simp add: loadMore_then_parsed [OF issued assms(1)] status_of_def)
  qed
  from pages returns empty show ?thesis by blast
qed

theorem loadMore_appends_pages_witness:
  "ok 200 \<and> trim (searchQuery typed_dune) \<noteq> []
   \<and> shelf 12 \<noteq> [] \<and> shelf 3 \<noteq> []
   \<and> loadMore_calls (search_then typed_dune (page_of 200 (shelf 12)))
        (map (page_of 200) [shelf 12, shelf 3]) \<noteq> None
   \<and> map_option books (loadMore_calls (search_then typed_dune (page_of 200 (shelf 12)))
        (map (page_of 200) [shelf 12, shelf 3])) = Some (shelf 12 @ shelf 12 @ shelf 3)
   \<and> map_option currentPage (loadMore_calls (search_then typed_dune (page_of 200 (shelf 12)))
        (map (page_of 200) [shelf 12, shelf 3])) = Some 3
   \<and> hasMoreResults (search_then typed_dune full_page)
   \<and> \<not> loading (search_then typed_dune full_page)
   \<and> trim (searchQuery (search_then typed_dune full_page)) \<noteq> []
   \<and> batch (Some []) = [] \<and> batch None = []
   \<and> books (loadMore_then (search_then typed_dune full_page) (Http 200 (Parsed (Some []))))
       = shelf 12
   \<and> currentPage (loadMore_then (search_then typed_dune full_page) (Http 200 (Parsed (Some []))))
       = 1
   \<and> books (loadMore_then (search_then typed_dune full_page) (Http 200 (Parsed None)))
       = shelf 12
   \<and> currentPage (loadMore_then (search_then typed_dune full_page) (Http 200 (Parsed None)))
       = 1
   \<and> \<not> hasMoreResults (loadMore_then (search_then typed_dune full_page) (Http 200 (Parsed None)))"
proof -
  have h1: "ok 200" by (simp add: ok_def)
  have h2: "trim (searchQuery typed_dune) \<noteq> []" by (simp add: run_defs)
  have h3: "\<forall>d\<in>set [shelf 12, shelf 3]. d \<noteq> []" by (simp add: shelf_def)
  have h4: "([shelf 12, shelf 3] \<noteq> [] \<longrightarrow> length (shelf 12) = 12)
      \<and> (\<forall>d\<in>set (butlast [shelf 12, shelf 3]). length d = 12)"
    by (simp add: shelf_def)
  let ?s = "search_then typed_dune full_page"
  let ?r = "loadMore_calls (search_then typed_dune (page_of 200 (shelf 12)))
        (map (page_of 200) [shelf 12, shelf 3])"
  have h5: "hasMoreResults ?s" "\<not> loading ?s" "trim (searchQuery ?s) \<noteq> []"
    "books ?s = shelf 12" "currentPage ?s = 1"
    using search_then_page [OF h2 h1, of "Some (shelf 12)"]
    by (simp_all add: full_page_def batch_def shelf_def h2)
  have h6: "batch (Some []) = []" "batch None = []" by (simp_all add: batch_def)
  note T = loadMore_appends_pages [OF h1 h2, of "shelf 12" "[shelf 12, shelf 3]"]
  from T h4 have some: "?r \<noteq> None" by blast
  then obtain st' where st': "?r = Some st'" by blast
  with T h3 have pages: "books st' = shelf 12 @ concat [shelf 12, shelf 3]"
    "currentPage st' = length [shelf 12, shelf 3] + 1" by blast+
  from T [of st' ?s "Some []"] h5 h6
  have e1: "books (loadMore_then ?s (Http 200 (Parsed (Some [])))) = shelf 12"
    "currentPage (loadMore_then ?s (Http 200 (Parsed (Some [])))) = 1"
    by simp_all
  from T [of st' ?s None] h5 h6
  have e2: "books (loadMore_then ?s (Http 200 (Parsed None))) = shelf 12"
    "currentPage (loadMore_then ?s (Http 200 (Parsed None))) = 1"
    "\<not> hasMoreResults (loadMore_then ?s (Http 200 (Parsed None)))"
    by simp_all
  from st' some h1 h2 h3 h5 h6 pages e1 e2 show ?thesis by simp
qed




end
